theory Spec2Isabelle
  imports Complex_Main "HOL-Library.Char_ord" "HOL-Library.List_Lexorder"
begin

section \<open>Python values and exceptions\<close>

text \<open>
  The exceptions that the modelled code can raise. \<open>ExternalFailure\<close> stands for any
  exception coming out of a wrapped third-party call (audio decoding, file export, the
  speech-to-text service, the embedding engine, the chat model, the file system); its
  argument is the text that \<open>str(e)\<close> gives.
\<close>

datatype pyexc =
    ValueError
  | TypeError
  | IndexError
  | ZeroDivisionError
  | UnboundLocalError
  | IntegrityError
  | ExternalFailure string

text \<open>
  Python seconds are floats obtained by dividing integer milliseconds by 1000; they are
  modelled as exact rationals. A Python tuple is a list of values, so that its arity is
  a property of the value, as it is in Python.
\<close>

datatype pyval = PStr string | PNum rat

type_synonym pytuple = "pyval list"

subsection \<open>Decimal formatting\<close>

definition digit_char :: "nat \<Rightarrow> char" where
  "digit_char d = char_of (48 + d)"

fun str_nat :: "nat \<Rightarrow> string" where
  "str_nat n = (if n < 10 then [digit_char n] else str_nat (n div 10) @ [digit_char (n mod 10)])"

declare str_nat.simps [simp del]

text \<open>The format specification \<open>:02d\<close>: minimum width 2, zero filled, sign first.\<close>

definition fmt_02d :: "int \<Rightarrow> string" where
  "fmt_02d n =
     (if n < 0 then CHR ''-'' # str_nat (nat (- n))
      else if n < 10 then CHR ''0'' # str_nat (nat n)
      else str_nat (nat n))"

section \<open>Transcription client: time formatting\<close>

text \<open>Python's \<open>//\<close> and \<open>%\<close> on numbers: floor division and the remainder that goes with it.\<close>

definition py_floordiv :: "rat \<Rightarrow> rat \<Rightarrow> rat" where
  "py_floordiv a b = of_int \<lfloor>a / b\<rfloor>"

definition py_mod :: "rat \<Rightarrow> rat \<Rightarrow> rat" where
  "py_mod a b = a - b * of_int \<lfloor>a / b\<rfloor>"

text \<open>Python's \<open>int(x)\<close> truncates towards zero.\<close>

definition py_int :: "rat \<Rightarrow> int" where
  "py_int x = (if 0 \<le> x then \<lfloor>x\<rfloor> else \<lceil>x\<rceil>)"

definition hours_of :: "rat \<Rightarrow> int" where
  "hours_of t = py_int (py_floordiv t 3600)"

definition minutes_of :: "rat \<Rightarrow> int" where
  "minutes_of t = py_int (py_floordiv (py_mod t 3600) 60)"

definition secs_of :: "rat \<Rightarrow> int" where
  "secs_of t = py_int (py_mod t 60)"

definition format_time :: "rat \<Rightarrow> string" where
  "format_time t =
     fmt_02d (hours_of t) @ '':'' @ fmt_02d (minutes_of t) @ '':'' @ fmt_02d (secs_of t)"

text \<open>The hours field of a formatted time: the text before the first colon.\<close>

definition hours_field :: "string \<Rightarrow> string" where
  "hours_field s = takeWhile (\<lambda>c. c \<noteq> CHR '':'') s"

text \<open>Reading a decimal numeral back: what \<open>int(s)\<close> gives on a string of digits.\<close>

definition decimal_value :: "string \<Rightarrow> nat" where
  "decimal_value s = foldl (\<lambda>a c. 10 * a + (of_char c - 48)) 0 s"

section \<open>Configuration and external collaborators\<close>

text \<open>
  The values of \<open>Src/config.py\<close> that the modelled code reads. They come from the
  environment through \<open>int(os.getenv(...))\<close>, so any integer is possible.
\<close>

record config =
  CHUNK_LENGTH_SECONDS :: int
  TOP_K_RESULTS :: int
  VIDEOS_FINISHED_PATH :: string
  temp_dir :: string

text \<open>A \<open>pathlib.Path\<close>, already split into parent directory, stem and suffix.\<close>

record path =
  parent :: string
  stem :: string
  suffix :: string

definition name :: "path \<Rightarrow> string" where
  "name p = stem p @ suffix p"

definition path_str :: "path \<Rightarrow> string" where
  "path_str p = parent p @ ''/'' @ name p"

datatype message = HumanMessage string | AIMessage string

text \<open>
  The system instruction handed to the chat model: the fixed global instruction of
  \<open>_create_rag_chain\<close> with its context, or the single-video instruction of
  \<open>ask_with_video_filter\<close> with the video name and its context.
\<close>

datatype system_prompt = GlobalPrompt string | VideoPrompt string string

text \<open>
  The third-party calls, as functions that either raise or return:
  \<open>from_file\<close> is \<open>AudioSegment.from_file\<close> (its result is \<open>len(audio)\<close>, in
  milliseconds), \<open>export\<close> is \<open>chunk.export\<close>, \<open>write_audiofile\<close> is the
  demultiplexing done by \<open>extract_audio\<close>, \<open>whisper\<close> opens a chunk file and sends it
  to the speech-to-text service, \<open>float_str\<close> is \<open>str\<close> on a float,
  \<open>split_text\<close> is the text splitter, \<open>embed_documents\<close> and \<open>embed_query\<close> are the
  embedding calls behind \<open>add_texts\<close> and a similarity query, \<open>distance\<close> is the
  similarity score of a stored text for a query, and \<open>llm\<close> is the chat model.
\<close>

record env =
  from_file :: "string \<Rightarrow> pyexc + nat"
  export :: "string \<Rightarrow> pyexc + unit"
  write_audiofile :: "string \<Rightarrow> string \<Rightarrow> pyexc + unit"
  whisper :: "string \<Rightarrow> pyexc + string"
  float_str :: "rat \<Rightarrow> string"
  split_text :: "string \<Rightarrow> string list"
  embed_documents :: "string list \<Rightarrow> pyexc + unit"
  embed_query :: "string \<Rightarrow> pyexc + unit"
  distance :: "string \<Rightarrow> string \<Rightarrow> int"
  llm :: "system_prompt \<Rightarrow> message list \<Rightarrow> string \<Rightarrow> pyexc + string"

section \<open>Audio extractor\<close>

definition extract_audio :: "env \<Rightarrow> config \<Rightarrow> path \<Rightarrow> pyexc + path" where
  "extract_audio ev cfg video_path =
     (let audio_path = \<lparr>parent = temp_dir cfg, stem = stem video_path, suffix = ''.wav''\<rparr>
      in case write_audiofile ev (path_str video_path) (path_str audio_path) of
           Inl e \<Rightarrow> Inl e
         | Inr _ \<Rightarrow> Inr audio_path)"

text \<open>
  The body of the \<open>for i in range(num_chunks)\<close> loop of \<open>split_audio\<close>, over the
  indices still to do: the tuple is appended before the export, and an exception of the
  export leaves the loop.
\<close>

fun split_loop ::
  "env \<Rightarrow> config \<Rightarrow> path \<Rightarrow> nat \<Rightarrow> nat list \<Rightarrow> pytuple list \<Rightarrow> pyexc + pytuple list"
where
  "split_loop ev cfg audio_path len_audio [] chunks = Inr chunks"
| "split_loop ev cfg audio_path len_audio (i # rest) chunks =
     (let chunk_length = CHUNK_LENGTH_SECONDS cfg;
          start_ms = int i * chunk_length * 1000;
          end_ms = min (int len_audio) ((int i + 1) * chunk_length * 1000);
          chunk_path = \<lparr>parent = temp_dir cfg,
                         stem = stem audio_path @ ''_'' @ str_nat i, suffix = ''.wav''\<rparr>;
          start_time = of_int start_ms / 1000;
          end_time = of_int end_ms / 1000;
          chunks' = chunks @ [[PStr (path_str chunk_path), PNum start_time, PNum end_time]]
      in case export ev (path_str chunk_path) of
           Inl e \<Rightarrow> Inl e
         | Inr _ \<Rightarrow> split_loop ev cfg audio_path len_audio rest chunks')"

text \<open>The \<open>try\<close> block of \<open>split_audio\<close>.\<close>

definition split_audio_try :: "env \<Rightarrow> config \<Rightarrow> path \<Rightarrow> pyexc + pytuple list" where
  "split_audio_try ev cfg audio_path =
     (case from_file ev (path_str audio_path) of
        Inl e \<Rightarrow> Inl e
      | Inr len_audio \<Rightarrow>
          (let duration_in_seconds = (of_nat len_audio :: rat) / 1000;
               chunk_length = CHUNK_LENGTH_SECONDS cfg
           in if chunk_length = 0 then Inl ZeroDivisionError
              else (let num_chunks = \<lceil>duration_in_seconds / of_int chunk_length\<rceil>
                    in split_loop ev cfg audio_path len_audio [0 ..< nat num_chunks] [])))"

text \<open>
  \<open>split_audio\<close> itself: the \<open>except\<close> branch logs and falls off the end of the
  function, so the result is Python's \<open>None\<close>, here \<open>None\<close>.
\<close>

definition split_audio :: "env \<Rightarrow> config \<Rightarrow> path \<Rightarrow> pytuple list option" where
  "split_audio ev cfg audio_path =
     (case split_audio_try ev cfg audio_path of Inl e \<Rightarrow> None | Inr chunks \<Rightarrow> Some chunks)"

section \<open>Transcription client\<close>

text \<open>
  The result dictionary of \<open>transcribe_chunk\<close>. The keys \<open>chunk_index\<close> and
  \<open>audio_name\<close> are absent until \<open>transcribe_all_chunks\<close> sets them.
\<close>

record transcript =
  tr_text :: string
  tr_start_time :: rat
  tr_end_time :: rat
  tr_duration :: rat
  tr_start_formatted :: string
  tr_end_formatted :: string
  tr_chunk_index :: "nat option"
  tr_audio_name :: "string option"

definition transcribe_chunk :: "env \<Rightarrow> pyval \<Rightarrow> pyval \<Rightarrow> pyval \<Rightarrow> pyexc + transcript" where
  "transcribe_chunk ev audio_path start_time end_time =
     (case audio_path of
        PNum _ \<Rightarrow> Inl TypeError
      | PStr file \<Rightarrow>
          (case whisper ev file of
             Inl e \<Rightarrow> Inl e
           | Inr text \<Rightarrow>
               (case (start_time, end_time) of
                  (PNum s, PNum e) \<Rightarrow>
                    Inr \<lparr>tr_text = text, tr_start_time = s, tr_end_time = e,
                         tr_duration = e - s,
                         tr_start_formatted = format_time s,
                         tr_end_formatted = format_time e,
                         tr_chunk_index = None, tr_audio_name = None\<rparr>
                | _ \<Rightarrow> Inl TypeError)))"

definition py_str :: "env \<Rightarrow> pyval \<Rightarrow> string" where
  "py_str ev v = (case v of PStr s \<Rightarrow> s | PNum r \<Rightarrow> float_str ev r)"

text \<open>
  The loop \<open>for i, (audio_path, start_time, end_time, audio_name) in enumerate(chunks)\<close>:
  unpacking a tuple that does not have exactly four elements raises \<open>ValueError\<close>.
\<close>

fun transcribe_loop ::
  "env \<Rightarrow> nat \<Rightarrow> pytuple list \<Rightarrow> transcript list \<Rightarrow> pyexc + transcript list"
where
  "transcribe_loop ev i [] transcribtions = Inr transcribtions"
| "transcribe_loop ev i (chunk # rest) transcribtions =
     (case chunk of
        [audio_path, start_time, end_time, audio_name] \<Rightarrow>
          (case transcribe_chunk ev audio_path start_time end_time of
             Inl e \<Rightarrow> Inl e
           | Inr result \<Rightarrow>
               transcribe_loop ev (i + 1) rest
                 (transcribtions @
                    [result\<lparr>tr_chunk_index := Some i,
                            tr_audio_name := Some (py_str ev audio_name)\<rparr>]))
      | _ \<Rightarrow> Inl ValueError)"

definition transcribe_all_chunks :: "env \<Rightarrow> pytuple list \<Rightarrow> pyexc + transcript list" where
  "transcribe_all_chunks ev chunks = transcribe_loop ev 0 chunks []"

section \<open>Metadata store\<close>

text \<open>
  The two tables. The timestamp columns are left out: no modelled operation reads them.
\<close>

record VideoMetaData =
  vm_id :: nat
  vm_video_name :: string
  vm_original_path :: string
  vm_total_chunks :: nat
  vm_total_duration :: pyval
  vm_status :: string

record TranscriptChunk =
  tc_id :: nat
  tc_video_name :: string
  tc_chunk_index :: nat
  tc_start_time :: rat
  tc_end_time :: rat
  tc_start_formatted :: string
  tc_end_formatted :: string
  tc_text :: string
  tc_char_count :: nat
  tc_vector_id :: "string option"

text \<open>
  The database: the rows of each table in insertion order, and the next value of each
  autoincrement key.
\<close>

record database =
  video_metadata :: "VideoMetaData list"
  transcript_chunks :: "TranscriptChunk list"
  next_video_id :: nat
  next_chunk_id :: nat

definition get_video_by_name :: "database \<Rightarrow> string \<Rightarrow> VideoMetaData option" where
  "get_video_by_name d video_name =
     find (\<lambda>v. vm_video_name v = video_name) (video_metadata d)"

definition video_exists :: "database \<Rightarrow> string \<Rightarrow> bool" where
  "video_exists d video_name =
     (case get_video_by_name d video_name of Some _ \<Rightarrow> True | None \<Rightarrow> False)"

text \<open>\<open>add_video\<close>: the unique constraint on the name makes the commit fail, and the
  rollback leaves the database as it was.\<close>

definition add_video ::
  "database \<Rightarrow> string \<Rightarrow> string \<Rightarrow> pyval \<Rightarrow> nat \<Rightarrow> pyexc + (nat \<times> database)"
where
  "add_video d video_name original_path total_duration total_chunks =
     (if video_exists d video_name then Inl IntegrityError
      else
        (let video = \<lparr>vm_id = next_video_id d, vm_video_name = video_name,
                       vm_original_path = original_path, vm_total_chunks = total_chunks,
                       vm_total_duration = total_duration, vm_status = ''completed''\<rparr>
         in Inr (vm_id video,
                 d\<lparr>video_metadata := video_metadata d @ [video],
                    next_video_id := next_video_id d + 1\<rparr>)))"

text \<open>\<open>add_transcript_chunk\<close>: \<open>chunk_data.get('chunk_index', 0)\<close> reads the index;
  nothing is checked against the rows already stored.\<close>

definition add_transcript_chunk ::
  "database \<Rightarrow> string \<Rightarrow> transcript \<Rightarrow> string option \<Rightarrow> nat \<times> database"
where
  "add_transcript_chunk d video_name chunk_data vector_id =
     (let chunk = \<lparr>tc_id = next_chunk_id d, tc_video_name = video_name,
                    tc_chunk_index =
                      (case tr_chunk_index chunk_data of Some i \<Rightarrow> i | None \<Rightarrow> 0),
                    tc_start_time = tr_start_time chunk_data,
                    tc_end_time = tr_end_time chunk_data,
                    tc_start_formatted = tr_start_formatted chunk_data,
                    tc_end_formatted = tr_end_formatted chunk_data,
                    tc_text = tr_text chunk_data,
                    tc_char_count = length (tr_text chunk_data),
                    tc_vector_id = vector_id\<rparr>
      in (tc_id chunk,
          d\<lparr>transcript_chunks := transcript_chunks d @ [chunk],
             next_chunk_id := next_chunk_id d + 1\<rparr>))"

text \<open>The chunk rows of one video, in insertion order, and their indices.\<close>

definition chunk_rows :: "database \<Rightarrow> string \<Rightarrow> TranscriptChunk list" where
  "chunk_rows d video_name = filter (\<lambda>c. tc_video_name c = video_name) (transcript_chunks d)"

definition chunk_indices :: "database \<Rightarrow> string \<Rightarrow> nat list" where
  "chunk_indices d video_name = map tc_chunk_index (chunk_rows d video_name)"

definition get_chunks_by_video :: "database \<Rightarrow> string \<Rightarrow> TranscriptChunk list" where
  "get_chunks_by_video d video_name = sort_key tc_chunk_index (chunk_rows d video_name)"

definition Database_delete_video :: "database \<Rightarrow> string \<Rightarrow> bool \<times> database" where
  "Database_delete_video d video_name =
     (True,
      d\<lparr>transcript_chunks := filter (\<lambda>c. tc_video_name c \<noteq> video_name) (transcript_chunks d),
         video_metadata := filter (\<lambda>v. vm_video_name v \<noteq> video_name) (video_metadata d)\<rparr>)"

text \<open>The invariant of the data model on the chunk rows of one video: their indices,
  in insertion order, are strictly increasing (and therefore unique).\<close>

definition indices_increasing :: "database \<Rightarrow> string \<Rightarrow> bool" where
  "indices_increasing d video_name = sorted_wrt (<) (chunk_indices d video_name)"

section \<open>Vector store\<close>

record metadata =
  md_video_name :: string
  md_chunk_index :: nat
  md_sub_chunk_index :: nat
  md_start_time :: rat
  md_end_time :: rat
  md_start_formatted :: string
  md_end_formatted :: string

record document =
  doc_id :: nat
  page_content :: string
  doc_metadata :: metadata

text \<open>The collection: its entries in insertion order, and the next fresh id.\<close>

record vectorstore =
  entries :: "document list"
  next_doc_id :: nat

text \<open>\<open>text.strip()\<close> is empty exactly when every character is white space.\<close>

definition is_space :: "char \<Rightarrow> bool" where
  "is_space c = (c \<in> set [CHR '' '', CHR 0x09, CHR 0x0A, CHR 0x0B, CHR 0x0C, CHR 0x0D,
                           CHR 0x1C, CHR 0x1D, CHR 0x1E, CHR 0x1F])"

definition sub_chunk_entries ::
  "env \<Rightarrow> string \<Rightarrow> nat \<times> transcript \<Rightarrow> (string \<times> metadata) list"
where
  "sub_chunk_entries ev video_name it =
     (let i = fst it; transcript = snd it; text = tr_text transcript
      in if list_all is_space text then []
         else map (\<lambda>js. (snd js,
                          \<lparr>md_video_name = video_name, md_chunk_index = i,
                           md_sub_chunk_index = fst js,
                           md_start_time = tr_start_time transcript,
                           md_end_time = tr_end_time transcript,
                           md_start_formatted = tr_start_formatted transcript,
                           md_end_formatted = tr_end_formatted transcript\<rparr>))
                  (enumerate 0 (split_text ev text)))"

definition add_transcripts ::
  "env \<Rightarrow> vectorstore \<Rightarrow> transcript list \<Rightarrow> string \<Rightarrow> pyexc + (nat list \<times> vectorstore)"
where
  "add_transcripts ev store transcripts video_name =
     (let all_texts = concat (map (sub_chunk_entries ev video_name) (enumerate 0 transcripts))
      in if all_texts = [] then Inr ([], store)
         else
           (case embed_documents ev (map fst all_texts) of
              Inl e \<Rightarrow> Inl e
            | Inr _ \<Rightarrow>
                (let ids = [next_doc_id store ..< next_doc_id store + length all_texts];
                     docs = map (\<lambda>(i, tm). \<lparr>doc_id = i, page_content = fst tm,
                                             doc_metadata = snd tm\<rparr>)
                                (zip ids all_texts)
                 in Inr (ids,
                         store\<lparr>entries := entries store @ docs,
                               next_doc_id := next_doc_id store + length all_texts\<rparr>))))"

definition get_all_video_names :: "vectorstore \<Rightarrow> string list" where
  "get_all_video_names store =
     sort (remdups (filter (\<lambda>n. n \<noteq> [])
                           (map (\<lambda>d. md_video_name (doc_metadata d)) (entries store))))"

definition delete_by_video_name :: "vectorstore \<Rightarrow> string \<Rightarrow> bool \<times> vectorstore" where
  "delete_by_video_name store video_name =
     (let ids = map doc_id (filter (\<lambda>d. md_video_name (doc_metadata d) = video_name)
                                   (entries store))
      in if ids \<noteq> []
         then (True, store\<lparr>entries := filter (\<lambda>d. doc_id d \<notin> set ids) (entries store)\<rparr>)
         else (False, store))"

text \<open>
  Modelled from the spec: the similarity query of the external embedding engine, which
  is not code of this repository. The spec describes it as a black box that returns a
  ranked list, of at most \<open>k\<close> entries, and that, given a metadata filter on the video
  name, searches only the entries whose metadata \<open>video_name\<close> is exactly that name.
  The ranking is by the distance of the environment; embedding the query may raise.
\<close>

definition similarity_query ::
  "env \<Rightarrow> vectorstore \<Rightarrow> int \<Rightarrow> string option \<Rightarrow> string \<Rightarrow> pyexc + document list"
where
  "similarity_query ev store k filter_name query =
     (case embed_query ev query of
        Inl e \<Rightarrow> Inl e
      | Inr _ \<Rightarrow>
          (let candidates =
                 (case filter_name of
                    None \<Rightarrow> entries store
                  | Some n \<Rightarrow> filter (\<lambda>d. md_video_name (doc_metadata d) = n) (entries store))
           in Inr (take (nat k) (sort_key (\<lambda>d. distance ev query (page_content d)) candidates))))"

text \<open>\<open>similarity_search\<close>: a missing or zero \<open>k\<close> becomes the configured breadth, a
  missing or empty video name means no filter, and an exception is logged, after which
  the function falls off its end.\<close>

definition similarity_search ::
  "env \<Rightarrow> config \<Rightarrow> vectorstore \<Rightarrow> string \<Rightarrow> int option \<Rightarrow> string option
     \<Rightarrow> document list option"
where
  "similarity_search ev cfg store query k video_name =
     (let k' = (case k of None \<Rightarrow> TOP_K_RESULTS cfg
                        | Some n \<Rightarrow> if n = 0 then TOP_K_RESULTS cfg else n);
          filter_dict = (case video_name of None \<Rightarrow> None
                                          | Some n \<Rightarrow> if n = [] then None else Some n)
      in case similarity_query ev store k' filter_dict query of
           Inl e \<Rightarrow> None
         | Inr results \<Rightarrow> Some results)"

section \<open>Video pipeline\<close>

text \<open>
  What the pipeline reads and writes: the metadata store, the vector store, and the
  paths of the files that exist. Scratch audio files are not modelled.
\<close>

record world =
  w_database :: database
  w_vector_store :: vectorstore
  w_files :: "string list"

definition py_index :: "pytuple \<Rightarrow> nat \<Rightarrow> pyexc + pyval" where
  "py_index t i = (if i < length t then Inr (t ! i) else Inl IndexError)"

definition save_chunks :: "database \<Rightarrow> string \<Rightarrow> transcript list \<Rightarrow> database" where
  "save_chunks d video_name transcriptions =
     foldl (\<lambda>d' transcript. snd (add_transcript_chunk d' video_name transcript None))
           d transcriptions"

text \<open>
  The search for a free name in the finished directory:
  \<open>while finished_path.exists(): finished_path = dir / f"{stem}_{counter}{suffix}"; counter += 1\<close>.
  The result is \<open>None\<close> when the loop never ends.
\<close>

partial_function (option) free_path ::
  "string list \<Rightarrow> config \<Rightarrow> path \<Rightarrow> path \<Rightarrow> nat \<Rightarrow> path option"
where
  "free_path files cfg video_path finished_path counter =
     (if path_str finished_path \<in> set files
      then free_path files cfg video_path
             \<lparr>parent = VIDEOS_FINISHED_PATH cfg,
              stem = stem video_path @ ''_'' @ str_nat counter,
              suffix = suffix video_path\<rparr>
             (counter + 1)
      else Some finished_path)"

declare free_path.simps [code]

text \<open>\<open>shutil.move\<close>: fails when the source does not exist.\<close>

definition move :: "string list \<Rightarrow> string \<Rightarrow> string \<Rightarrow> pyexc + string list" where
  "move files src dst =
     (if src \<in> set files then Inr (dst # removeAll src files)
      else Inl (ExternalFailure ''No such file or directory''))"

text \<open>
  The second half of the \<open>try\<close> block of \<open>process_video\<close>, from saving to the
  database to the move of the source file. The result is the value returned or the
  exception raised, with the world as it is at that moment.
\<close>

definition persist_and_relocate ::
  "env \<Rightarrow> config \<Rightarrow> world \<Rightarrow> path \<Rightarrow> pyval \<Rightarrow> transcript list
     \<Rightarrow> ((pyexc + bool) \<times> world) option"
where
  "persist_and_relocate ev cfg w video_path total_duration transcriptions =
     (let video_name = name video_path;
          d = w_database w
      in case (if \<not> video_exists d video_name
               then (case add_video d video_name (path_str video_path) total_duration
                            (length transcriptions) of
                       Inl e \<Rightarrow> Inl e | Inr r \<Rightarrow> Inr (snd r))
               else Inr d) of
           Inl e \<Rightarrow> Some (Inl e, w)
         | Inr d1 \<Rightarrow>
             (let w1 = w\<lparr>w_database := save_chunks d1 video_name transcriptions\<rparr>
              in case add_transcripts ev (w_vector_store w1) transcriptions video_name of
                   Inl e \<Rightarrow> Some (Inl e, w1)
                 | Inr r \<Rightarrow>
                     (let w2 = w1\<lparr>w_vector_store := snd r\<rparr>
                      in case free_path (w_files w2) cfg video_path
                                \<lparr>parent = VIDEOS_FINISHED_PATH cfg,
                                 stem = stem video_path, suffix = suffix video_path\<rparr> 1 of
                           None \<Rightarrow> None
                         | Some finished_path \<Rightarrow>
                             (case move (w_files w2) (path_str video_path)
                                     (path_str finished_path) of
                                Inl e \<Rightarrow> Some (Inl e, w2)
                              | Inr files' \<Rightarrow> Some (Inr True, w2\<lparr>w_files := files'\<rparr>)))))"

text \<open>The \<open>try\<close> block of \<open>process_video\<close>.\<close>

definition process_video_try ::
  "env \<Rightarrow> config \<Rightarrow> world \<Rightarrow> path \<Rightarrow> ((pyexc + bool) \<times> world) option"
where
  "process_video_try ev cfg w video_path =
     (let video_name = name video_path
      in if video_exists (w_database w) video_name
            \<and> video_name \<in> set (get_all_video_names (w_vector_store w))
         then Some (Inr False, w)
         else
           (case extract_audio ev cfg video_path of
              Inl e \<Rightarrow> Some (Inl e, w)
            | Inr audio_path \<Rightarrow>
                (case split_audio ev cfg audio_path of
                   None \<Rightarrow> Some (Inr False, w)
                 | Some audio_splits_chunks \<Rightarrow>
                     if audio_splits_chunks = [] then Some (Inr False, w)
                     else
                       (case transcribe_all_chunks ev audio_splits_chunks of
                          Inl e \<Rightarrow> Some (Inl e, w)
                        | Inr transcriptions \<Rightarrow>
                            if transcriptions = [] then Some (Inr False, w)
                            else
                              (case py_index (last audio_splits_chunks) 2 of
                                 Inl e \<Rightarrow> Some (Inl e, w)
                               | Inr total_duration \<Rightarrow>
                                   persist_and_relocate ev cfg w video_path
                                     total_duration transcriptions)))))"

text \<open>\<open>process_video\<close>: the \<open>except\<close> branch turns every exception into \<open>False\<close>.
  The result is \<open>None\<close> only when the call does not return.\<close>

definition process_video :: "env \<Rightarrow> config \<Rightarrow> world \<Rightarrow> path \<Rightarrow> (bool \<times> world) option" where
  "process_video ev cfg w video_path =
     (case process_video_try ev cfg w video_path of
        None \<Rightarrow> None
      | Some (Inl e, w') \<Rightarrow> Some (False, w')
      | Some (Inr b, w') \<Rightarrow> Some (b, w'))"

text \<open>
  \<open>VideoProcessor.delete_video\<close>. The local variable \<open>db_sucess\<close> is assigned only in
  the branch where the video exists in the database; it is \<open>None\<close> here while it is
  unbound, and reading it then raises \<open>UnboundLocalError\<close>.
\<close>

definition delete_video :: "world \<Rightarrow> string \<Rightarrow> (pyexc + bool) \<times> world" where
  "delete_video w video_name =
     (let (db_sucess, d') =
            (if video_exists (w_database w) video_name
             then (let r = Database_delete_video (w_database w) video_name
                   in (Some (fst r), snd r))
             else (None, w_database w));
          (vs_db, store') = delete_by_video_name (w_vector_store w) video_name;
          w' = w\<lparr>w_database := d', w_vector_store := store'\<rparr>
      in case db_sucess of
           None \<Rightarrow> (Inl UnboundLocalError, w')
         | Some b \<Rightarrow> (Inr (b \<and> vs_db), w'))"

section \<open>Chat engine\<close>

record source =
  src_video_name :: string
  src_start_time :: string
  src_end_time :: string
  src_text_preview :: string

record result =
  answer :: string
  sources :: "source list"

definition exc_str :: "pyexc \<Rightarrow> string" where
  "exc_str e =
     (case e of
        ExternalFailure m \<Rightarrow> m
      | ValueError \<Rightarrow> ''not enough values to unpack''
      | TypeError \<Rightarrow> ''unsupported operand type''
      | IndexError \<Rightarrow> ''tuple index out of range''
      | ZeroDivisionError \<Rightarrow> ''division by zero''
      | UnboundLocalError \<Rightarrow> ''local variable referenced before assignment''
      | IntegrityError \<Rightarrow> ''UNIQUE constraint failed'')"

definition format_doc :: "nat \<times> document \<Rightarrow> string" where
  "format_doc idoc =
     (let i = fst idoc; m = doc_metadata (snd idoc)
      in ''[Source '' @ str_nat i @ '']'' @ [CHR 0x0A]
         @ ''Video: '' @ md_video_name m @ [CHR 0x0A]
         @ ''Time: '' @ md_start_formatted m @ '' - '' @ md_end_formatted m @ [CHR 0x0A]
         @ ''Content: '' @ page_content (snd idoc) @ [CHR 0x0A])"

fun join_newline :: "string list \<Rightarrow> string" where
  "join_newline [] = []"
| "join_newline [x] = x"
| "join_newline (x # y # zs) = x @ [CHR 0x0A] @ join_newline (y # zs)"

definition format_docs :: "document list \<Rightarrow> string" where
  "format_docs docs = join_newline (map format_doc (enumerate 1 docs))"

definition source_of :: "document \<Rightarrow> source" where
  "source_of doc =
     \<lparr>src_video_name = md_video_name (doc_metadata doc),
      src_start_time = md_start_formatted (doc_metadata doc),
      src_end_time = md_end_formatted (doc_metadata doc),
      src_text_preview =
        (if length (page_content doc) > 150 then take 150 (page_content doc) @ ''...''
         else page_content doc)\<rparr>"

text \<open>The retriever of \<open>get_retriever\<close>, and the filtered one of
  \<open>ask_with_video_filter\<close>: the query of the engine with the configured breadth.\<close>

definition retriever :: "env \<Rightarrow> config \<Rightarrow> vectorstore \<Rightarrow> string \<Rightarrow> pyexc + document list" where
  "retriever ev cfg store question = similarity_query ev store (TOP_K_RESULTS cfg) None question"

definition filtered_retriever ::
  "env \<Rightarrow> config \<Rightarrow> vectorstore \<Rightarrow> string \<Rightarrow> string \<Rightarrow> pyexc + document list"
where
  "filtered_retriever ev cfg store video_name question =
     similarity_query ev store (TOP_K_RESULTS cfg) (Some video_name) question"

text \<open>The chains: retrieve, format the context, prompt the model with the history.\<close>

definition chain :: "env \<Rightarrow> config \<Rightarrow> vectorstore \<Rightarrow> message list \<Rightarrow> string \<Rightarrow> pyexc + string" where
  "chain ev cfg store chat_history question =
     (case retriever ev cfg store question of
        Inl e \<Rightarrow> Inl e
      | Inr docs \<Rightarrow> llm ev (GlobalPrompt (format_docs docs)) chat_history question)"

definition temp_chain ::
  "env \<Rightarrow> config \<Rightarrow> vectorstore \<Rightarrow> string \<Rightarrow> message list \<Rightarrow> string \<Rightarrow> pyexc + string"
where
  "temp_chain ev cfg store video_name chat_history question =
     (case filtered_retriever ev cfg store video_name question of
        Inl e \<Rightarrow> Inl e
      | Inr docs \<Rightarrow> llm ev (VideoPrompt video_name (format_docs docs)) chat_history question)"

text \<open>
  The \<open>try\<close> blocks of \<open>ask\<close> and \<open>ask_with_video_filter\<close>: the value returned or
  the exception raised, with the conversation history as it is at that moment.
\<close>

definition ask_try ::
  "env \<Rightarrow> config \<Rightarrow> vectorstore \<Rightarrow> message list \<Rightarrow> string \<Rightarrow> (pyexc + result) \<times> message list"
where
  "ask_try ev cfg store chat_history question =
     (case retriever ev cfg store question of
        Inl e \<Rightarrow> (Inl e, chat_history)
      | Inr retrieved_docs \<Rightarrow>
          (case chain ev cfg store chat_history question of
             Inl e \<Rightarrow> (Inl e, chat_history)
           | Inr a \<Rightarrow>
               (let chat_history' = chat_history @ [HumanMessage question, AIMessage a]
                in (Inr \<lparr>answer = a, sources = map source_of retrieved_docs\<rparr>,
                    chat_history'))))"

definition ask_with_video_filter_try ::
  "env \<Rightarrow> config \<Rightarrow> vectorstore \<Rightarrow> message list \<Rightarrow> string \<Rightarrow> string
     \<Rightarrow> (pyexc + result) \<times> message list"
where
  "ask_with_video_filter_try ev cfg store chat_history question video_name =
     (case filtered_retriever ev cfg store video_name question of
        Inl e \<Rightarrow> (Inl e, chat_history)
      | Inr retrieved_docs \<Rightarrow>
          (case temp_chain ev cfg store video_name chat_history question of
             Inl e \<Rightarrow> (Inl e, chat_history)
           | Inr a \<Rightarrow>
               (let chat_history' = chat_history @ [HumanMessage question, AIMessage a]
                in (Inr \<lparr>answer = a, sources = map source_of retrieved_docs\<rparr>,
                    chat_history'))))"

text \<open>The \<open>except\<close> branch, shared by both methods.\<close>

definition error_result :: "pyexc \<Rightarrow> result" where
  "error_result e = \<lparr>answer = ''Sorry, I encountered an error: '' @ exc_str e, sources = []\<rparr>"

definition ask ::
  "env \<Rightarrow> config \<Rightarrow> vectorstore \<Rightarrow> message list \<Rightarrow> string \<Rightarrow> result \<times> message list"
where
  "ask ev cfg store chat_history question =
     (case ask_try ev cfg store chat_history question of
        (Inl e, h) \<Rightarrow> (error_result e, h)
      | (Inr r, h) \<Rightarrow> (r, h))"

definition ask_with_video_filter ::
  "env \<Rightarrow> config \<Rightarrow> vectorstore \<Rightarrow> message list \<Rightarrow> string \<Rightarrow> string \<Rightarrow> result \<times> message list"
where
  "ask_with_video_filter ev cfg store chat_history question video_name =
     (case ask_with_video_filter_try ev cfg store chat_history question video_name of
        (Inl e, h) \<Rightarrow> (error_result e, h)
      | (Inr r, h) \<Rightarrow> (r, h))"

section \<open>Examples used by the witnesses\<close>

definition example_env :: env where
  "example_env =
     \<lparr>from_file = (\<lambda>p. Inr 1500000), export = (\<lambda>p. Inr ()),
      write_audiofile = (\<lambda>a b. Inr ()), whisper = (\<lambda>p. Inr ''hello''),
      float_str = (\<lambda>r. ''0.0''), split_text = (\<lambda>t. [t]),
      embed_documents = (\<lambda>ts. Inr ()), embed_query = (\<lambda>q. Inr ()),
      distance = (\<lambda>q t. int (length t)), llm = (\<lambda>p h q. Inr ''answer'')\<rparr>"

definition example_config :: config where
  "example_config =
     \<lparr>CHUNK_LENGTH_SECONDS = 600, TOP_K_RESULTS = 3,
      VIDEOS_FINISHED_PATH = ''finished'', temp_dir = ''tmp''\<rparr>"

definition example_video :: path where
  "example_video = \<lparr>parent = ''input'', stem = ''talk'', suffix = ''.mp4''\<rparr>"

definition example_audio :: path where
  "example_audio = \<lparr>parent = ''tmp'', stem = ''talk'', suffix = ''.wav''\<rparr>"

text \<open>An environment in which the audio file cannot be decoded, and one in which the
  chat model is unreachable.\<close>

definition broken_audio_env :: env where
  "broken_audio_env = example_env\<lparr>from_file := (\<lambda>p. Inl (ExternalFailure ''cannot decode''))\<rparr>"

definition offline_env :: env where
  "offline_env = example_env\<lparr>llm := (\<lambda>p h q. Inl (ExternalFailure ''connection refused''))\<rparr>"


text \<open>A database that holds the video \<open>talk.mp4\<close> with one chunk, of index 0.\<close>

definition example_database :: database where
  "example_database =
     \<lparr>video_metadata =
        [\<lparr>vm_id = 1, vm_video_name = ''talk.mp4'', vm_original_path = ''input/talk.mp4'',
          vm_total_chunks = 1, vm_total_duration = PNum 600, vm_status = ''completed''\<rparr>],
      transcript_chunks =
        [\<lparr>tc_id = 1, tc_video_name = ''talk.mp4'', tc_chunk_index = 0,
          tc_start_time = 0, tc_end_time = 600,
          tc_start_formatted = ''00:00:00'', tc_end_formatted = ''00:10:00'',
          tc_text = ''hello'', tc_char_count = 5, tc_vector_id = None\<rparr>],
      next_video_id = 2, next_chunk_id = 2\<rparr>"

definition empty_database :: database where
  "empty_database =
     \<lparr>video_metadata = [], transcript_chunks = [], next_video_id = 1, next_chunk_id = 1\<rparr>"

text \<open>A vector store with one entry of \<open>talk.mp4\<close> and one of \<open>other.mp4\<close>.\<close>

definition example_store :: vectorstore where
  "example_store =
     \<lparr>entries =
        [\<lparr>doc_id = 0, page_content = ''hello'',
          doc_metadata = \<lparr>md_video_name = ''talk.mp4'', md_chunk_index = 0,
                           md_sub_chunk_index = 0, md_start_time = 0, md_end_time = 600,
                           md_start_formatted = ''00:00:00'',
                           md_end_formatted = ''00:10:00''\<rparr>\<rparr>,
         \<lparr>doc_id = 1, page_content = ''bye'',
          doc_metadata = \<lparr>md_video_name = ''other.mp4'', md_chunk_index = 0,
                           md_sub_chunk_index = 0, md_start_time = 0, md_end_time = 300,
                           md_start_formatted = ''00:00:00'',
                           md_end_formatted = ''00:05:00''\<rparr>\<rparr>],
      next_doc_id = 2\<rparr>"

definition example_world :: world where
  "example_world =
     \<lparr>w_database = example_database, w_vector_store = example_store,
      w_files = [''input/talk.mp4'']\<rparr>"

text \<open>A world in which the vector store knows \<open>talk.mp4\<close> and the database does not.\<close>

definition orphan_world :: world where
  "orphan_world =
     \<lparr>w_database = empty_database, w_vector_store = example_store,
      w_files = [''input/talk.mp4'']\<rparr>"

section \<open>Arithmetic of the time components\<close>

lemma floor_div_rat:
  fixes t :: rat and k :: int
  assumes k: "0 < k"
  shows "\<lfloor>t / of_int k\<rfloor> = \<lfloor>t\<rfloor> div k"
proof (rule floor_unique)
  let ?n = "\<lfloor>t\<rfloor>"
  have kr: "(0::rat) < of_int k" using k by simp
  have n: "?n = (?n div k) * k + ?n mod k" by simp
  have r0: "0 \<le> ?n mod k" and r1: "?n mod k \<le> k - 1" using k by auto
  have "(?n div k) * k \<le> ?n" using n r0 by linarith
  then have "(of_int ((?n div k) * k) :: rat) \<le> of_int ?n" by (simp only: of_int_le_iff)
  also have "\<dots> \<le> t" by simp
  finally have "of_int (?n div k) * of_int k \<le> t" by simp
  then show "of_int (?n div k) \<le> t / of_int k"
    using kr by (simp add: pos_le_divide_eq)
  have "?n + 1 \<le> (?n div k) * k + k" using n r1 by linarith
  then have "(of_int (?n + 1) :: rat) \<le> of_int ((?n div k) * k + k)" by (simp only: of_int_le_iff)
  moreover have "t < of_int (?n + 1)" by linarith
  ultimately have "t < of_int ((?n div k) * k + k)" by linarith
  then have "t < (of_int (?n div k) + 1) * of_int k" by (simp add: algebra_simps)
  then show "t / of_int k < of_int (?n div k) + 1"
    using kr by (simp add: pos_divide_less_eq)
qed


lemma py_int_of_int: "py_int (of_int n) = n"
  by (simp add: py_int_def)

lemma hours_of_eq: "hours_of t = \<lfloor>t\<rfloor> div 3600"
  using floor_div_rat [of 3600 t] by (simp add: hours_of_def py_floordiv_def py_int_of_int)

lemma floor_py_mod:
  assumes "0 < k"
  shows "\<lfloor>py_mod t (of_int k)\<rfloor> = \<lfloor>t\<rfloor> mod k"
proof -
  have "py_mod t (of_int k) = t - of_int (k * (\<lfloor>t\<rfloor> div k))"
    using floor_div_rat [OF assms, of t] by (simp add: py_mod_def)
  then have "\<lfloor>py_mod t (of_int k)\<rfloor> = \<lfloor>t\<rfloor> - k * (\<lfloor>t\<rfloor> div k)"
    by (simp only: floor_diff_of_int)
  then show ?thesis by (simp add: minus_mult_div_eq_mod)
qed

lemma py_mod_nonneg:
  assumes "0 < k"
  shows "0 \<le> py_mod t (of_int k)"
proof -
  have "(of_int k :: rat) * of_int \<lfloor>t / of_int k\<rfloor> \<le> of_int k * (t / of_int k)"
    by (rule mult_left_mono) (use assms in simp_all)
  also have "\<dots> = t" using assms by simp
  finally show ?thesis by (simp add: py_mod_def)
qed

lemma secs_of_eq: "secs_of t = \<lfloor>t\<rfloor> mod 60"
  using floor_py_mod [of 60 t] py_mod_nonneg [of 60 t] by (simp add: secs_of_def py_int_def)

lemma minutes_of_eq: "minutes_of t = (\<lfloor>t\<rfloor> mod 3600) div 60"
proof -
  have "\<lfloor>py_mod t 3600 / 60\<rfloor> = \<lfloor>py_mod t 3600\<rfloor> div 60"
    using floor_div_rat [of 60 "py_mod t 3600"] by simp
  also have "\<dots> = (\<lfloor>t\<rfloor> mod 3600) div 60"
    using floor_py_mod [of 3600 t] by simp
  finally show ?thesis by (simp add: minutes_of_def py_floordiv_def py_int_of_int)
qed


lemma hms_total: "hours_of t * 3600 + minutes_of t * 60 + secs_of t = \<lfloor>t\<rfloor>"
proof -
  let ?n = "\<lfloor>t\<rfloor>"
  have a: "?n mod 60 = (?n mod 3600) mod 60"
    by (simp add: mod_mod_cancel)
  have b: "((?n mod 3600) div 60) * 60 + (?n mod 3600) mod 60 = ?n mod 3600"
    by (rule div_mult_mod_eq)
  have c: "(?n div 3600) * 3600 + ?n mod 3600 = ?n"
    by (rule div_mult_mod_eq)
  show ?thesis
    unfolding hours_of_eq minutes_of_eq secs_of_eq using a b c by linarith
qed

lemma minutes_range: "0 \<le> minutes_of t \<and> minutes_of t < 60"
proof -
  have "0 \<le> \<lfloor>t\<rfloor> mod 3600" and "\<lfloor>t\<rfloor> mod 3600 < 60 * 60" by simp_all
  then show ?thesis
    unfolding minutes_of_eq by (simp add: div_less_iff_less_mult pos_imp_zdiv_nonneg_iff)
qed

lemma secs_range: "0 \<le> secs_of t \<and> secs_of t < 60"
  by (simp add: secs_of_eq)

lemma hours_ge_24: "86400 \<le> t \<Longrightarrow> 24 \<le> hours_of t"
proof -
  assume "86400 \<le> t"
  then have "86400 \<le> \<lfloor>t\<rfloor>" by (simp add: le_floor_iff)
  then have "86400 div 3600 \<le> \<lfloor>t\<rfloor> div 3600" by (rule zdiv_mono1) simp
  then show ?thesis by (simp add: hours_of_eq)
qed

section \<open>Decimal strings\<close>

lemma digit_char_code: "d < 10 \<Longrightarrow> (of_char (digit_char d) :: nat) = 48 + d"
  by (simp add: digit_char_def)

lemma digit_char_not_colon: "d < 10 \<Longrightarrow> digit_char d \<noteq> CHR '':''"
proof
  assume d: "d < 10" and "digit_char d = CHR '':''"
  then have "(of_char (digit_char d) :: nat) = of_char (CHR '':'')" by simp
  with d show False by (simp add: digit_char_code)
qed

lemma str_nat_no_colon: "c \<in> set (str_nat n) \<Longrightarrow> c \<noteq> CHR '':''"
proof (induction n arbitrary: c rule: str_nat.induct)
  case (1 n)
  show ?case
  proof (cases "n < 10")
    case True
    with "1.prems" show ?thesis
      by (simp add: str_nat.simps [of n] digit_char_not_colon)
  next
    case False
    with "1.prems" have "c \<in> set (str_nat (n div 10)) \<or> c = digit_char (n mod 10)"
      by (auto simp add: str_nat.simps [of n])
    then show ?thesis
      using "1.IH" [OF False] digit_char_not_colon [of "n mod 10"] by auto
  qed
qed

lemma decimal_value_snoc: "decimal_value (s @ [c]) = 10 * decimal_value s + (of_char c - 48)"
  by (simp add: decimal_value_def)

lemma decimal_value_str_nat: "decimal_value (str_nat n) = n"
proof (induction n rule: str_nat.induct)
  case (1 n)
  show ?case
  proof (cases "n < 10")
    case True
    then show ?thesis
      by (simp add: str_nat.simps [of n] decimal_value_def digit_char_code)
  next
    case False
    then have "decimal_value (str_nat n) = 10 * decimal_value (str_nat (n div 10)) + (of_char (digit_char (n mod 10)) - 48)"
      by (simp add: str_nat.simps [of n] decimal_value_snoc)
    also have "\<dots> = 10 * (n div 10) + n mod 10"
      using "1.IH" [OF False] by (simp add: digit_char_code)
    finally show ?thesis by simp
  qed
qed

lemma hours_field_format_time:
  assumes "10 \<le> hours_of t"
  shows "hours_field (format_time t) = str_nat (nat (hours_of t))"
proof -
  have f: "fmt_02d (hours_of t) = str_nat (nat (hours_of t))"
    using assms by (simp add: fmt_02d_def)
  have "format_time t = str_nat (nat (hours_of t)) @ CHR '':'' # (fmt_02d (minutes_of t) @ '':'' @ fmt_02d (secs_of t))"
    by (simp add: format_time_def f)
  then show ?thesis
    unfolding hours_field_def using str_nat_no_colon
    by (simp add: takeWhile_tail)
qed

lemma format_time_floor:
  "format_time t =
     fmt_02d (\<lfloor>t\<rfloor> div 3600) @ '':'' @ fmt_02d ((\<lfloor>t\<rfloor> mod 3600) div 60) @ '':''
       @ fmt_02d (\<lfloor>t\<rfloor> mod 60)"
  by (simp add: format_time_def hours_of_eq minutes_of_eq secs_of_eq)

lemma fmt_02d_two_digits:
  assumes "0 \<le> n" and "n < 100"
  shows "fmt_02d n = [digit_char (nat n div 10), digit_char (nat n mod 10)]"
proof (cases "n < 10")
  case True
  with assms have "nat n < 10" by simp
  then have "str_nat (nat n) = [digit_char (nat n)]" by (simp add: str_nat.simps)
  moreover have "digit_char 0 = CHR ''0''" by code_simp
  ultimately show ?thesis using True assms \<open>nat n < 10\<close> by (simp add: fmt_02d_def)
next
  case False
  with assms have a: "\<not> nat n < 10" and b: "nat n div 10 < 10" by simp_all
  have "str_nat (nat n) = str_nat (nat n div 10) @ [digit_char (nat n mod 10)]"
    using a by (simp add: str_nat.simps [of "nat n"])
  also have "str_nat (nat n div 10) = [digit_char (nat n div 10)]"
    using b by (simp add: str_nat.simps)
  finally show ?thesis using False assms by (simp add: fmt_02d_def)
qed

lemma decimal_value_fmt_02d:
  assumes "0 \<le> n"
  shows "decimal_value (fmt_02d n) = nat n"
proof (cases "n < 10")
  case True
  have "decimal_value (CHR ''0'' # s) = decimal_value s" for s
    by (simp add: decimal_value_def)
  with True assms show ?thesis by (simp add: fmt_02d_def decimal_value_str_nat)
next
  case False
  with assms show ?thesis by (simp add: fmt_02d_def decimal_value_str_nat)
qed

section \<open>Claims\<close>

text \<open>
  Claim C6. \<open>format_time\<close> turns seconds into \<open>HH:MM:SS\<close>: 0 gives 00:00:00, 65 gives
  00:01:05 and 3725 gives 01:02:05. For every input the string is the hours, the minutes
  and the seconds of the whole seconds of the input (the input truncated, not rounded),
  each written with at least two digits and separated by colons: a component below 100 is
  written as exactly two digits, and every non-negative component reads back as its
  number. There is no day rollover: for every input of at least 86400 seconds the hours
  component is at least 24, and the hours field of the string is its decimal numeral.
  Hours, minutes and seconds add up to the whole seconds of the input, with minutes and
  seconds between 0 and 59.
\<close>

theorem format_time_spec:
  "format_time 0 = ''00:00:00'' \<and> format_time 65 = ''00:01:05''
   \<and> format_time 3725 = ''01:02:05''
   \<and> (\<forall>t. 86400 \<le> t \<longrightarrow>
          24 \<le> hours_of t
          \<and> hours_field (format_time t) = str_nat (nat (hours_of t))
          \<and> 24 \<le> decimal_value (hours_field (format_time t)))
   \<and> (\<forall>t. hours_of t * 3600 + minutes_of t * 60 + secs_of t = \<lfloor>t\<rfloor>
          \<and> 0 \<le> minutes_of t \<and> minutes_of t < 60 \<and> 0 \<le> secs_of t \<and> secs_of t < 60)
   \<and> (\<forall>t. format_time t =
          fmt_02d (\<lfloor>t\<rfloor> div 3600) @ '':'' @ fmt_02d ((\<lfloor>t\<rfloor> mod 3600) div 60) @ '':''
            @ fmt_02d (\<lfloor>t\<rfloor> mod 60))
   \<and> (\<forall>n. 0 \<le> n \<and> n < 100 \<longrightarrow>
          fmt_02d n = [digit_char (nat n div 10), digit_char (nat n mod 10)])
   \<and> (\<forall>n. 0 \<le> n \<longrightarrow> decimal_value (fmt_02d n) = nat n)"
proof -
  have e0: "format_time 0 = ''00:00:00''" by code_simp
  have e1: "format_time 65 = ''00:01:05''" by code_simp
  have e2: "format_time 3725 = ''01:02:05''" by code_simp
  have big: "24 \<le> hours_of t
          \<and> hours_field (format_time t) = str_nat (nat (hours_of t))
          \<and> 24 \<le> decimal_value (hours_field (format_time t))" if t: "86400 \<le> t" for t
  proof -
    have h: "24 \<le> hours_of t" using t by (rule hours_ge_24)
    then have f: "hours_field (format_time t) = str_nat (nat (hours_of t))"
      by (intro hours_field_format_time) simp
    have "decimal_value (hours_field (format_time t)) = nat (hours_of t)"
      by (simp only: f decimal_value_str_nat)
    with h f show ?thesis by simp
  qed
  have trunc: "hours_of t * 3600 + minutes_of t * 60 + secs_of t = \<lfloor>t\<rfloor>
          \<and> 0 \<le> minutes_of t \<and> minutes_of t < 60 \<and> 0 \<le> secs_of t \<and> secs_of t < 60" for t
    using hms_total [of t] minutes_range [of t] secs_range [of t] by simp
  have whole: "format_time t =
          fmt_02d (\<lfloor>t\<rfloor> div 3600) @ '':'' @ fmt_02d ((\<lfloor>t\<rfloor> mod 3600) div 60) @ '':''
            @ fmt_02d (\<lfloor>t\<rfloor> mod 60)" for t
    by (rule format_time_floor)
  have two: "fmt_02d n = [digit_char (nat n div 10), digit_char (nat n mod 10)]"
    if "0 \<le> n \<and> n < 100" for n
    using that by (intro fmt_02d_two_digits) simp_all
  have reads: "decimal_value (fmt_02d n) = nat n" if "0 \<le> n" for n
    using that by (rule decimal_value_fmt_02d)
  show ?thesis
  proof (intro conjI allI impI)
    show "format_time 0 = ''00:00:00''" by (rule e0)
    show "format_time 65 = ''00:01:05''" by (rule e1)
    show "format_time 3725 = ''01:02:05''" by (rule e2)
    show "24 \<le> hours_of t" if "86400 \<le> t" for t using big [OF that] by simp
    show "hours_field (format_time t) = str_nat (nat (hours_of t))" if "86400 \<le> t" for t
      using big [OF that] by simp
    show "24 \<le> decimal_value (hours_field (format_time t))" if "86400 \<le> t" for t
      using big [OF that] by blast
    show "hours_of t * 3600 + minutes_of t * 60 + secs_of t = \<lfloor>t\<rfloor>" for t
      using trunc [of t] by simp
    show "0 \<le> minutes_of t" for t using trunc [of t] by simp
    show "minutes_of t < 60" for t using trunc [of t] by simp
    show "0 \<le> secs_of t" for t using trunc [of t] by simp
    show "secs_of t < 60" for t using trunc [of t] by simp
    show "format_time t =
          fmt_02d (\<lfloor>t\<rfloor> div 3600) @ '':'' @ fmt_02d ((\<lfloor>t\<rfloor> mod 3600) div 60) @ '':''
            @ fmt_02d (\<lfloor>t\<rfloor> mod 60)" for t
      by (rule whole)
    show "fmt_02d n = [digit_char (nat n div 10), digit_char (nat n mod 10)]"
      if "0 \<le> n \<and> n < 100" for n
      using that by (rule two)
    show "decimal_value (fmt_02d n) = nat n" if "0 \<le> n" for n
      using that by (rule reads)
  qed
qed

text \<open>
  The theorem at 90000 seconds, which is 25 hours, and at 199.9 seconds, which is 3
  minutes and 19 whole seconds.
\<close>

theorem format_time_spec_witness:
  "(86400::rat) \<le> 90000 \<and> 24 \<le> hours_of 90000
   \<and> hours_field (format_time 90000) = ''25''
   \<and> decimal_value (hours_field (format_time 90000)) = 25
   \<and> format_time (1999 / 10) = ''00:03:19''"
proof -
  have h: "(86400::rat) \<le> 90000" by simp
  have s: "str_nat (nat (hours_of 90000)) = ''25''" by code_simp
  have d: "decimal_value ''25'' = 25" by code_simp
  from format_time_spec h have
    "24 \<le> hours_of 90000 \<and> hours_field (format_time 90000) = str_nat (nat (hours_of 90000))"
    by blast
  moreover from format_time_spec have
    "format_time (1999 / 10) =
       fmt_02d (\<lfloor>1999 / 10 :: rat\<rfloor> div 3600) @ '':''
         @ fmt_02d ((\<lfloor>1999 / 10 :: rat\<rfloor> mod 3600) div 60) @ '':''
         @ fmt_02d (\<lfloor>1999 / 10 :: rat\<rfloor> mod 60)"
    by blast
  moreover have
    "fmt_02d (\<lfloor>1999 / 10 :: rat\<rfloor> div 3600) @ '':''
         @ fmt_02d ((\<lfloor>1999 / 10 :: rat\<rfloor> mod 3600) div 60) @ '':''
         @ fmt_02d (\<lfloor>1999 / 10 :: rat\<rfloor> mod 60) = ''00:03:19''"
    by code_simp
  ultimately show ?thesis using h s d by simp
qed

subsection \<open>Splitting the audio\<close>

lemma split_loop_exports_ok:
  assumes ok: "\<forall>p. export ev p = Inr ()"
  shows "split_loop ev cfg audio_path len_audio idxs chunks =
     Inr (chunks @ map (\<lambda>i.
        [PStr (path_str \<lparr>parent = temp_dir cfg,
                         stem = stem audio_path @ ''_'' @ str_nat i, suffix = ''.wav''\<rparr>),
         PNum (of_int (int i * CHUNK_LENGTH_SECONDS cfg * 1000) / 1000),
         PNum (of_int (min (int len_audio) ((int i + 1) * CHUNK_LENGTH_SECONDS cfg * 1000))
                 / 1000)]) idxs)"
proof (induction idxs arbitrary: chunks)
  case Nil
  show ?case by simp
next
  case (Cons i rest)
  show ?case
    using ok by (simp add: Let_def Cons.IH)
qed

lemma start_seconds:
  "(of_int (int i * l * 1000) :: rat) / 1000 = of_nat i * of_int l"
  by simp

lemma end_seconds:
  "(of_int (min (int n) ((int i + 1) * l * 1000)) :: rat) / 1000
     = min ((of_nat i + 1) * of_int l) (of_nat n / 1000)"
proof (cases "int n \<le> (int i + 1) * l * 1000")
  case True
  then have "(of_int (int n) :: rat) \<le> of_int ((int i + 1) * l * 1000)"
    by (simp only: of_int_le_iff)
  then have "(of_nat n :: rat) / 1000 \<le> (of_nat i + 1) * of_int l" by simp
  with True show ?thesis by (simp add: min_def)
next
  case False
  then have "(of_int ((int i + 1) * l * 1000) :: rat) < of_int (int n)"
    by (simp only: of_int_less_iff)
  then have "(of_nat i + 1) * of_int l < (of_nat n :: rat) / 1000" by simp
  with False show ?thesis by (simp add: min_def)
qed

lemma split_audio_try_ok:
  assumes load: "from_file ev (path_str audio_path) = Inr len_audio"
    and ok: "\<forall>p. export ev p = Inr ()"
    and pos: "0 < CHUNK_LENGTH_SECONDS cfg"
  shows "split_audio ev cfg audio_path =
     Some (map (\<lambda>i.
        [PStr (path_str \<lparr>parent = temp_dir cfg,
                         stem = stem audio_path @ ''_'' @ str_nat i, suffix = ''.wav''\<rparr>),
         PNum (of_nat i * of_int (CHUNK_LENGTH_SECONDS cfg)),
         PNum (min ((of_nat i + 1) * of_int (CHUNK_LENGTH_SECONDS cfg))
                   (of_nat len_audio / 1000))])
       [0 ..< nat \<lceil>(of_nat len_audio / 1000 :: rat) / of_int (CHUNK_LENGTH_SECONDS cfg)\<rceil>])"
  using pos
  by (simp add: split_audio_def split_audio_try_def load Let_def
      split_loop_exports_ok [OF ok] start_seconds end_seconds del: of_int_mult of_int_add)


lemma below_ceiling:
  fixes x :: rat
  assumes "i < nat \<lceil>x\<rceil>"
  shows "of_nat i < x"
proof -
  from assms have "int i < \<lceil>x\<rceil>" by linarith
  then have "of_int (int i) < x" by (simp only: less_ceiling_iff)
  then show ?thesis by simp
qed

text \<open>
  Claim C2. When the audio file loads with a length of \<open>len_audio\<close> milliseconds, that
  is a duration of D = \<open>len_audio / 1000\<close> seconds, every chunk export succeeds and the
  configured chunk length L is positive, \<open>split_audio\<close> returns a list of exactly
  ceil(D / L) chunks; chunk i is the tuple (file, i * L, min ((i + 1) * L, D)), a non-empty
  window; each chunk ends where the next one starts; and the last chunk ends at D exactly.
\<close>

theorem split_audio_windows:
  assumes load: "from_file ev (path_str audio_path) = Inr len_audio"
    and ok: "\<forall>p. export ev p = Inr ()"
    and pos: "0 < CHUNK_LENGTH_SECONDS cfg"
  shows "\<exists>chunks. split_audio ev cfg audio_path = Some chunks
     \<and> int (length chunks)
          = \<lceil>(of_nat len_audio / 1000 :: rat) / of_int (CHUNK_LENGTH_SECONDS cfg)\<rceil>
     \<and> (\<forall>i < length chunks. \<exists>file.
           chunks ! i =
             [PStr file,
              PNum (of_nat i * of_int (CHUNK_LENGTH_SECONDS cfg)),
              PNum (min ((of_nat i + 1) * of_int (CHUNK_LENGTH_SECONDS cfg))
                        (of_nat len_audio / 1000))]
           \<and> of_nat i * of_int (CHUNK_LENGTH_SECONDS cfg)
               < min ((of_nat i + 1) * of_int (CHUNK_LENGTH_SECONDS cfg))
                     (of_nat len_audio / 1000 :: rat))
     \<and> (\<forall>i. Suc i < length chunks \<longrightarrow>
           chunks ! i ! 2 = chunks ! Suc i ! 1)
     \<and> (chunks \<noteq> [] \<longrightarrow> last chunks ! 2 = PNum (of_nat len_audio / 1000))"
proof -
  define L :: rat where "L = of_int (CHUNK_LENGTH_SECONDS cfg)"
  define D :: rat where "D = of_nat len_audio / 1000"
  define n where "n = nat \<lceil>D / L\<rceil>"
  define chunks where "chunks = map (\<lambda>i.
        [PStr (path_str \<lparr>parent = temp_dir cfg,
                         stem = stem audio_path @ ''_'' @ str_nat i, suffix = ''.wav''\<rparr>),
         PNum (of_nat i * L), PNum (min ((of_nat i + 1) * L) D)]) [0 ..< n]"
  have Lpos: "0 < L" using pos by (simp add: L_def)
  have D0: "0 \<le> D" by (simp add: D_def)
  have res: "split_audio ev cfg audio_path = Some chunks"
    unfolding chunks_def n_def L_def D_def by (rule split_audio_try_ok [OF load ok pos])
  have len: "length chunks = n" by (simp add: chunks_def)
  have "0 \<le> D / L" using D0 Lpos by simp
  then have "0 \<le> \<lceil>D / L\<rceil>" by (simp add: ceiling_le_iff [symmetric] le_ceiling_iff)
  then have cnt: "int (length chunks) = \<lceil>D / L\<rceil>" by (simp add: len n_def)
  have nth: "chunks ! i = [PStr (path_str \<lparr>parent = temp_dir cfg,
                         stem = stem audio_path @ ''_'' @ str_nat i, suffix = ''.wav''\<rparr>),
         PNum (of_nat i * L), PNum (min ((of_nat i + 1) * L) D)]" if "i < n" for i
    using that by (simp add: chunks_def)
  have below: "of_nat i * L < D" if "i < n" for i
  proof -
    from that have "of_nat i < D / L" unfolding n_def by (rule below_ceiling)
    then show ?thesis using Lpos by (simp add: pos_less_divide_eq)
  qed
  have window: "of_nat i * L < min ((of_nat i + 1) * L) D" if "i < n" for i
  proof -
    have "of_nat i * L < (of_nat i + 1) * L" using Lpos by (simp add: algebra_simps)
    with below [OF that] show ?thesis by simp
  qed
  have consecutive: "chunks ! i ! 2 = chunks ! Suc i ! 1" if "Suc i < n" for i
  proof -
    have "of_nat (Suc i) * L < D" using that by (rule below)
    then have "min ((of_nat i + 1) * L) D = of_nat (Suc i) * L"
      by (simp add: min_def algebra_simps)
    moreover have "i < n" using that by simp
    ultimately show ?thesis using nth [of i] nth [OF that] by simp
  qed
  have final: "last chunks ! 2 = PNum D" if "chunks \<noteq> []"
  proof -
    from that len have n0: "0 < n" by auto
    then have l: "last chunks = chunks ! (n - 1)"
      using that len by (simp add: last_conv_nth)
    have "D / L \<le> of_int \<lceil>D / L\<rceil>" by (rule le_of_int_ceiling)
    also have "\<dots> = of_nat n" using n0 by (simp add: n_def)
    finally have "D \<le> of_nat n * L" using Lpos by (simp add: pos_divide_le_eq)
    moreover have "(of_nat (n - 1) + 1 :: rat) = of_nat n" using n0 by simp
    ultimately have "min ((of_nat (n - 1) + 1) * L) D = D" by (simp add: min_def)
    then show ?thesis using nth [of "n - 1"] n0 l by simp
  qed
  have all_windows: "\<forall>i < length chunks. \<exists>file.
           chunks ! i = [PStr file, PNum (of_nat i * L), PNum (min ((of_nat i + 1) * L) D)]
           \<and> of_nat i * L < min ((of_nat i + 1) * L) D"
    using nth window len by blast
  have all_consecutive: "\<forall>i. Suc i < length chunks \<longrightarrow> chunks ! i ! 2 = chunks ! Suc i ! 1"
    using consecutive len by simp
  have all_final: "chunks \<noteq> [] \<longrightarrow> last chunks ! 2 = PNum D"
    using final by simp
  from res cnt all_windows all_consecutive all_final
  have "split_audio ev cfg audio_path = Some chunks
     \<and> int (length chunks) = \<lceil>D / L\<rceil>
     \<and> (\<forall>i < length chunks. \<exists>file.
           chunks ! i = [PStr file, PNum (of_nat i * L), PNum (min ((of_nat i + 1) * L) D)]
           \<and> of_nat i * L < min ((of_nat i + 1) * L) D)
     \<and> (\<forall>i. Suc i < length chunks \<longrightarrow> chunks ! i ! 2 = chunks ! Suc i ! 1)
     \<and> (chunks \<noteq> [] \<longrightarrow> last chunks ! 2 = PNum D)"
    by (intro conjI)
  then show ?thesis
    unfolding L_def D_def by (rule exI)
qed


text \<open>
  The theorem on 1500 seconds of audio with a chunk length of 600 seconds: three chunks,
  the second one from 600 to 1200, the last one ending at 1500.
\<close>

theorem split_audio_windows_witness:
  "from_file example_env (path_str example_audio) = Inr 1500000
   \<and> (\<forall>p. export example_env p = Inr ())
   \<and> 0 < CHUNK_LENGTH_SECONDS example_config
   \<and> (\<exists>chunks. split_audio example_env example_config example_audio = Some chunks
         \<and> length chunks = 3
         \<and> chunks ! 1 ! 1 = PNum 600 \<and> chunks ! 1 ! 2 = PNum 1200
         \<and> last chunks ! 2 = PNum 1500)"
proof -
  have h1: "from_file example_env (path_str example_audio) = Inr 1500000"
    by (simp add: example_env_def)
  have h2: "\<forall>p. export example_env p = Inr ()"
    by (simp add: example_env_def)
  have h3: "0 < CHUNK_LENGTH_SECONDS example_config"
    by (simp add: example_config_def)
  have c: "\<lceil>(of_nat 1500000 / 1000 :: rat) / of_int (CHUNK_LENGTH_SECONDS example_config)\<rceil> = 3"
    by (simp add: example_config_def ceiling_eq_iff)
  from split_audio_windows [OF h1 h2 h3] obtain chunks where
    r: "split_audio example_env example_config example_audio = Some chunks"
    and n: "int (length chunks)
          = \<lceil>(of_nat 1500000 / 1000 :: rat) / of_int (CHUNK_LENGTH_SECONDS example_config)\<rceil>"
    and w: "\<forall>i < length chunks. \<exists>file.
           chunks ! i =
             [PStr file,
              PNum (of_nat i * of_int (CHUNK_LENGTH_SECONDS example_config)),
              PNum (min ((of_nat i + 1) * of_int (CHUNK_LENGTH_SECONDS example_config))
                        (of_nat 1500000 / 1000))]
           \<and> of_nat i * of_int (CHUNK_LENGTH_SECONDS example_config)
               < min ((of_nat i + 1) * of_int (CHUNK_LENGTH_SECONDS example_config))
                     (of_nat 1500000 / 1000 :: rat)"
    and f: "chunks \<noteq> [] \<longrightarrow> last chunks ! 2 = PNum (of_nat 1500000 / 1000)"
    by blast
  from n c have len: "length chunks = 3" by simp
  then have ne: "chunks \<noteq> []" by auto
  from w len obtain wav where
    "chunks ! 1 = [PStr wav, PNum (of_nat 1 * of_int (CHUNK_LENGTH_SECONDS example_config)),
              PNum (min ((of_nat 1 + 1) * of_int (CHUNK_LENGTH_SECONDS example_config))
                        (of_nat 1500000 / 1000))]"
    by (metis one_less_numeral_iff semiring_norm(77))
  then have m: "chunks ! 1 ! 1 = PNum 600 \<and> chunks ! 1 ! 2 = PNum 1200"
    by (simp add: example_config_def)
  from f ne have "last chunks ! 2 = PNum 1500" by simp
  with r len m h1 h2 h3 show ?thesis by blast
qed

subsection \<open>The pipeline: a failed split, and a video that is already known\<close>

lemma set_get_all_video_names:
  "set (get_all_video_names store) =
     {n. n \<noteq> [] \<and> n \<in> (\<lambda>d. md_video_name (doc_metadata d)) ` set (entries store)}"
  by (auto simp add: get_all_video_names_def)

lemma load_failure_raises:
  "from_file ev (path_str audio_path) = Inl e \<Longrightarrow> split_audio_try ev cfg audio_path = Inl e"
  by (simp add: split_audio_try_def)

lemma zero_chunk_length_raises:
  "from_file ev (path_str audio_path) = Inr n \<Longrightarrow> CHUNK_LENGTH_SECONDS cfg = 0
     \<Longrightarrow> split_audio_try ev cfg audio_path = Inl ZeroDivisionError"
  by (simp add: split_audio_try_def)

lemma negative_chunk_length_no_chunks:
  assumes "from_file ev (path_str audio_path) = Inr n" and "CHUNK_LENGTH_SECONDS cfg < 0"
  shows "split_audio ev cfg audio_path = Some []"
proof -
  have "(of_nat n / 1000 :: rat) / of_int (CHUNK_LENGTH_SECONDS cfg) \<le> 0"
    using assms(2) by (simp add: divide_nonneg_neg divide_le_0_iff)
  then have "\<lceil>(of_nat n / 1000 :: rat) / of_int (CHUNK_LENGTH_SECONDS cfg)\<rceil> \<le> 0"
    by (simp add: ceiling_le_iff)
  then have "nat \<lceil>(of_nat n / 1000 :: rat) / of_int (CHUNK_LENGTH_SECONDS cfg)\<rceil> = 0"
    by simp
  then show ?thesis
    using assms by (simp add: split_audio_def split_audio_try_def Let_def)
qed

lemma export_failure_raises:
  assumes "i \<in> set idxs"
    and "export ev (path_str \<lparr>parent = temp_dir cfg,
                         stem = stem audio_path @ ''_'' @ str_nat i, suffix = ''.wav''\<rparr>) = Inl e"
  shows "\<exists>e'. split_loop ev cfg audio_path len_audio idxs chunks = Inl e'"
  using assms
proof (induction idxs arbitrary: chunks)
  case Nil
  then show ?case by simp
next
  case (Cons j rest)
  show ?case
  proof (cases "export ev (path_str \<lparr>parent = temp_dir cfg,
                         stem = stem audio_path @ ''_'' @ str_nat j, suffix = ''.wav''\<rparr>)")
    case (Inl e')
    then show ?thesis by (simp add: Let_def)
  next
    case (Inr u)
    with Cons.prems have "i \<in> set rest" by auto
    then show ?thesis using Inr Cons.IH Cons.prems(2) by (simp add: Let_def)
  qed
qed

text \<open>
  Claim C9. When the \<open>try\<close> block of \<open>split_audio\<close> raises (the audio file does not
  load, the division by the chunk length fails, or an export fails, see the lemmas above),
  \<open>split_audio\<close> returns \<open>None\<close>, neither an exception nor a list, and
  \<open>process_video\<close>, having extracted that audio file, returns \<open>False\<close> and leaves
  the stores and the files as they were, as it does when the list of chunks is empty
  (lemma \<open>no_chunks_aborts_video\<close> below).
\<close>

theorem split_audio_exception_aborts_video:
  assumes thrown: "split_audio_try ev cfg audio_path = Inl e"
    and extracted: "extract_audio ev cfg video_path = Inr audio_path"
  shows "split_audio ev cfg audio_path = None
     \<and> process_video ev cfg w video_path = Some (False, w)"
proof -
  have none: "split_audio ev cfg audio_path = None"
    using thrown by (simp add: split_audio_def)
  have "process_video_try ev cfg w video_path = Some (Inr False, w)"
    using none extracted by (simp add: process_video_try_def Let_def)
  then have "process_video ev cfg w video_path = Some (False, w)"
    by (simp add: process_video_def)
  with none show ?thesis by simp
qed

text \<open>
  The theorem in the environment whose audio file cannot be decoded.
\<close>

theorem split_audio_exception_aborts_video_witness:
  "split_audio_try broken_audio_env example_config example_audio
      = Inl (ExternalFailure ''cannot decode'')
   \<and> extract_audio broken_audio_env example_config example_video = Inr example_audio
   \<and> split_audio broken_audio_env example_config example_audio = None
   \<and> process_video broken_audio_env example_config orphan_world example_video
        = Some (False, orphan_world)"
proof -
  have h1: "split_audio_try broken_audio_env example_config example_audio
      = Inl (ExternalFailure ''cannot decode'')"
    by (rule load_failure_raises) (simp add: broken_audio_env_def example_env_def)
  have h2: "extract_audio broken_audio_env example_config example_video = Inr example_audio"
    by (simp add: extract_audio_def broken_audio_env_def example_env_def example_config_def
        example_video_def example_audio_def)
  from split_audio_exception_aborts_video [OF h1 h2, of orphan_world] h1 h2
  show ?thesis by simp
qed

lemma no_chunks_aborts_video:
  assumes "extract_audio ev cfg video_path = Inr audio_path"
    and "split_audio ev cfg audio_path = Some []"
  shows "process_video ev cfg w video_path = Some (False, w)"
proof -
  have "process_video_try ev cfg w video_path = Some (Inr False, w)"
    using assms by (simp add: process_video_try_def Let_def)
  then show ?thesis by (simp add: process_video_def)
qed

text \<open>
  Claim C4. When the database has a video of this name and the vector store lists the
  name, \<open>process_video\<close> returns \<open>False\<close> and the world it leaves is the world it
  found: no row, no vector entry and no file has changed. By
  \<open>set_get_all_video_names\<close> the vector store lists a name exactly when the name is
  not empty and some entry carries it.
\<close>

theorem process_video_skips_known_video:
  assumes "video_exists (w_database w) (name video_path)"
    and "name video_path \<in> set (get_all_video_names (w_vector_store w))"
  shows "process_video ev cfg w video_path = Some (False, w)"
proof -
  have "process_video_try ev cfg w video_path = Some (Inr False, w)"
    using assms by (simp add: process_video_try_def Let_def)
  then show ?thesis by (simp add: process_video_def)
qed

text \<open>
  The theorem on the world that holds \<open>talk.mp4\<close> in both stores.
\<close>

theorem process_video_skips_known_video_witness:
  "video_exists (w_database example_world) (name example_video)
   \<and> name example_video \<in> set (get_all_video_names (w_vector_store example_world))
   \<and> process_video example_env example_config example_world example_video
        = Some (False, example_world)"
proof -
  have h1: "video_exists (w_database example_world) (name example_video)"
    by (simp add: video_exists_def get_video_by_name_def example_world_def
        example_database_def example_video_def name_def)
  have h2: "name example_video \<in> set (get_all_video_names (w_vector_store example_world))"
    by (simp add: set_get_all_video_names example_world_def example_store_def
        example_video_def name_def)
  from process_video_skips_known_video [OF h1 h2] h1 h2 show ?thesis by simp
qed

subsection \<open>Transcribing the chunks of split_audio, and deleting a video\<close>

lemma transcribe_loop_three_tuple_raises:
  assumes "chunks \<noteq> []" and "list_all (\<lambda>c. length c = 3) chunks"
  shows "transcribe_loop ev i chunks acc = Inl ValueError"
proof (cases chunks)
  case Nil
  with assms show ?thesis by simp
next
  case (Cons c rest)
  with assms have "length c = 3" by simp
  then obtain a b d where "c = [a, b, d]"
    by (metis (no_types, opaque_lifting) length_0_conv length_Suc_conv numeral_3_eq_3)
  with Cons show ?thesis by simp
qed

lemma split_loop_three_tuples:
  assumes "split_loop ev cfg audio_path len_audio idxs acc = Inr chunks"
    and "list_all (\<lambda>c. length c = 3) acc"
  shows "list_all (\<lambda>c. length c = 3) chunks"
  using assms
proof (induction idxs arbitrary: acc)
  case Nil
  then show ?case by simp
next
  case (Cons i rest)
  from Cons.prems show ?case
    by (auto simp add: Let_def split: sum.splits intro!: Cons.IH)
qed

lemma split_audio_gives_three_tuples:
  assumes "split_audio ev cfg audio_path = Some chunks"
  shows "list_all (\<lambda>c. length c = 3) chunks"
proof -
  from assms have "split_audio_try ev cfg audio_path = Inr chunks"
    by (simp add: split_audio_def split: sum.splits)
  then obtain n where
    "split_loop ev cfg audio_path n
       [0 ..< nat \<lceil>(of_nat n / 1000 :: rat) / of_int (CHUNK_LENGTH_SECONDS cfg)\<rceil>] [] = Inr chunks"
    by (auto simp add: split_audio_try_def Let_def split: sum.splits if_splits)
  then show ?thesis by (rule split_loop_three_tuples) simp
qed

lemma transcribe_all_chunks_after_split_audio:
  assumes "split_audio ev cfg audio_path = Some chunks" and "chunks \<noteq> []"
  shows "transcribe_all_chunks ev' chunks = Inl ValueError"
  unfolding transcribe_all_chunks_def
  using assms(2) split_audio_gives_three_tuples [OF assms(1)]
  by (rule transcribe_loop_three_tuple_raises)

lemma process_video_never_succeeds:
  "process_video_try ev cfg w video_path = Some (Inr False, w)
   \<or> (\<exists>e. process_video_try ev cfg w video_path = Some (Inl e, w))"
proof (cases "video_exists (w_database w) (name video_path)
            \<and> name video_path \<in> set (get_all_video_names (w_vector_store w))")
  case True
  then show ?thesis by (simp add: process_video_try_def Let_def)
next
  case unknown: False
  show ?thesis
  proof (cases "extract_audio ev cfg video_path")
    case (Inl e)
    with unknown show ?thesis by (simp add: process_video_try_def Let_def)
  next
    case (Inr audio_path)
    show ?thesis
    proof (cases "split_audio ev cfg audio_path")
      case None
      with unknown Inr show ?thesis by (simp add: process_video_try_def Let_def)
    next
      case (Some chunks)
      show ?thesis
      proof (cases "chunks = []")
        case True
        with unknown Inr Some show ?thesis by (simp add: process_video_try_def Let_def)
      next
        case False
        with Some have "transcribe_all_chunks ev chunks = Inl ValueError"
          by (rule transcribe_all_chunks_after_split_audio)
        with unknown Inr Some False show ?thesis
          by (simp add: process_video_try_def Let_def)
      qed
    qed
  qed
qed

lemma process_video_always_False:
  "process_video ev cfg w video_path = Some (False, w)"
  using process_video_never_succeeds [of ev cfg w video_path]
  by (auto simp add: process_video_def)

text \<open>
  What the loop does on well-formed input, tuples of four elements whose chunks all
  transcribe: one result per chunk, in order, each stamped with its position.
\<close>

lemma transcribe_loop_stamps_positions:
  assumes "transcribe_loop ev i chunks acc = Inr rs"
  shows "length rs = length acc + length chunks
     \<and> take (length acc) rs = acc
     \<and> (\<forall>k < length chunks. tr_chunk_index (rs ! (length acc + k)) = Some (i + k))"
  using assms
proof (induction chunks arbitrary: i acc)
  case Nil
  then show ?case by simp
next
  case (Cons c rest)
  from Cons.prems obtain a s e n r where c: "c = [a, s, e, n]"
    and r: "transcribe_chunk ev a s e = Inr r"
    and rest: "transcribe_loop ev (i + 1) rest
         (acc @ [r\<lparr>tr_chunk_index := Some i, tr_audio_name := Some (py_str ev n)\<rparr>]) = Inr rs"
    by (auto split: list.splits sum.splits)
  let ?x = "r\<lparr>tr_chunk_index := Some i, tr_audio_name := Some (py_str ev n)\<rparr>"
  from Cons.IH [OF rest] have len: "length rs = length (acc @ [?x]) + length rest"
    and pre: "take (length (acc @ [?x])) rs = acc @ [?x]"
    and idx: "\<forall>k < length rest. tr_chunk_index (rs ! (length (acc @ [?x]) + k)) = Some (i + 1 + k)"
    by blast+
  have l1: "length rs = length acc + length (c # rest)" using len by simp
  have "take (length acc) (take (length (acc @ [?x])) rs) = take (length acc) (acc @ [?x])"
    by (simp only: pre)
  then have l2: "take (length acc) rs = acc" by simp
  have "rs ! length acc = (take (length (acc @ [?x])) rs) ! length acc"
    by simp
  also have "\<dots> = ?x" by (simp only: pre) simp
  finally have at0: "tr_chunk_index (rs ! length acc) = Some i" by simp
  have l3: "tr_chunk_index (rs ! (length acc + k)) = Some (i + k)" if "k < length (c # rest)" for k
  proof (cases k)
    case 0
    with at0 show ?thesis by simp
  next
    case (Suc j)
    with that have "j < length rest" by simp
    with idx have "tr_chunk_index (rs ! (length (acc @ [?x]) + j)) = Some (i + 1 + j)" by blast
    with Suc show ?thesis by simp
  qed
  from l1 l2 l3 show ?case by blast
qed

lemma str_nat_0: "str_nat 0 = ''0''"
  by code_simp

lemma str_nat_1: "str_nat (Suc 0) = ''1''"
  by code_simp

lemma str_nat_2: "str_nat 2 = ''2''"
  by code_simp

lemma example_split:
  "split_audio example_env example_config example_audio =
     Some [[PStr ''tmp/talk_0.wav'', PNum 0, PNum 600],
           [PStr ''tmp/talk_1.wav'', PNum 600, PNum 1200],
           [PStr ''tmp/talk_2.wav'', PNum 1200, PNum 1500]]"
proof -
  have h1: "from_file example_env (path_str example_audio) = Inr 1500000"
    by (simp add: example_env_def)
  have h2: "\<forall>p. export example_env p = Inr ()"
    by (simp add: example_env_def)
  have h3: "0 < CHUNK_LENGTH_SECONDS example_config"
    by (simp add: example_config_def)
  have "\<lceil>(of_nat 1500000 / 1000 :: rat) / of_int (CHUNK_LENGTH_SECONDS example_config)\<rceil> = 3"
    by (simp add: example_config_def ceiling_eq_iff)
  then have c: "nat \<lceil>(of_nat 1500000 / 1000 :: rat) / of_int (CHUNK_LENGTH_SECONDS example_config)\<rceil> = 3"
    by simp
  have u: "[0 ..< 3] = [0, 1, 2::nat]"
    by (simp add: upt_rec)
  show ?thesis
    unfolding split_audio_try_ok [OF h1 h2 h3] c u
    by (simp add: example_config_def example_audio_def path_str_def name_def
        str_nat_0 str_nat_1 str_nat_2)
qed

text \<open>
  Claim C1. The claim is that \<open>transcribe_all_chunks\<close> returns, for every list of chunks
  produced by \<open>split_audio\<close>, a list of results of the same length, in input order,
  each stamped with its position as \<open>chunk_index\<close>. On well-formed tuples of four
  elements the loop does so (\<open>transcribe_loop_stamps_positions\<close>), but
  \<open>split_audio\<close> builds tuples of three elements and the loop unpacks four: on the three
  chunks of a 1500 second audio file cut at 600 seconds, \<open>transcribe_all_chunks\<close>
  raises \<open>ValueError\<close> and returns no list, and \<open>process_video\<close> returns
  \<open>False\<close> with nothing stored.
\<close>

theorem transcribe_all_chunks_rejects_split_audio_output:
  "split_audio example_env example_config example_audio =
     Some [[PStr ''tmp/talk_0.wav'', PNum 0, PNum 600],
           [PStr ''tmp/talk_1.wav'', PNum 600, PNum 1200],
           [PStr ''tmp/talk_2.wav'', PNum 1200, PNum 1500]]
   \<and> transcribe_all_chunks example_env
        [[PStr ''tmp/talk_0.wav'', PNum 0, PNum 600],
         [PStr ''tmp/talk_1.wav'', PNum 600, PNum 1200],
         [PStr ''tmp/talk_2.wav'', PNum 1200, PNum 1500]] = Inl ValueError
   \<and> process_video example_env example_config orphan_world example_video
        = Some (False, orphan_world)"
proof -
  have a: "split_audio example_env example_config example_audio =
     Some [[PStr ''tmp/talk_0.wav'', PNum 0, PNum 600],
           [PStr ''tmp/talk_1.wav'', PNum 600, PNum 1200],
           [PStr ''tmp/talk_2.wav'', PNum 1200, PNum 1500]]"
    by (rule example_split)
  have b: "transcribe_all_chunks example_env
        [[PStr ''tmp/talk_0.wav'', PNum 0, PNum 600],
         [PStr ''tmp/talk_1.wav'', PNum 600, PNum 1200],
         [PStr ''tmp/talk_2.wav'', PNum 1200, PNum 1500]] = Inl ValueError"
    using a by (rule transcribe_all_chunks_after_split_audio) simp
  have c: "process_video example_env example_config orphan_world example_video
        = Some (False, orphan_world)"
    by (rule process_video_always_False)
  from a b c show ?thesis by simp
qed

text \<open>
  Claim C3. The claim is that the pipeline's \<open>delete_video\<close> always returns a boolean,
  true exactly when both stores report success, also when the video is not in the metadata
  store. For a video that the vector store knows and the database does not,
  \<open>delete_video\<close> deletes the vector entries of the video and then raises
  \<open>UnboundLocalError\<close>: \<open>db_sucess\<close> was never assigned.
\<close>

theorem delete_video_unbound_local:
  "\<not> video_exists (w_database orphan_world) ''talk.mp4''
   \<and> fst (delete_video orphan_world ''talk.mp4'') = Inl UnboundLocalError
   \<and> map doc_id (entries (w_vector_store (snd (delete_video orphan_world ''talk.mp4'')))) = [1]"
  by code_simp

subsection \<open>Chunk indices in the metadata store\<close>







lemma indices_increasing_unique:
  "indices_increasing d v \<Longrightarrow> distinct (chunk_indices d v)"
  by (simp add: indices_increasing_def strict_sorted_iff)




subsection \<open>The chat engine\<close>

lemma similarity_query_filtered:
  assumes "similarity_query ev store k (Some n) query = Inr docs"
  shows "\<forall>d \<in> set docs. d \<in> set (entries store) \<and> md_video_name (doc_metadata d) = n"
proof -
  from assms have docs: "docs = take (nat k) (sort_key (\<lambda>d. distance ev query (page_content d))
        (filter (\<lambda>d. md_video_name (doc_metadata d) = n) (entries store)))"
    by (auto simp add: similarity_query_def Let_def split: sum.splits)
  show ?thesis
  proof
    fix d assume "d \<in> set docs"
    then have "d \<in> set (sort_key (\<lambda>d. distance ev query (page_content d))
        (filter (\<lambda>d. md_video_name (doc_metadata d) = n) (entries store)))"
      unfolding docs by (rule in_set_takeD)
    then show "d \<in> set (entries store) \<and> md_video_name (doc_metadata d) = n" by simp
  qed
qed

text \<open>
  Claim C7. For every question and every video name, every source that
  \<open>ask_with_video_filter\<close> returns has that video name: the retrieval is the filtered
  query, whose results are entries of the store with exactly this \<open>video_name\<close> in
  their metadata (\<open>similarity_query_filtered\<close>), the sources are built from the
  retrieved documents, and the error branch returns no source.
\<close>

theorem ask_with_video_filter_sources_match:
  "\<forall>s \<in> set (sources (fst (ask_with_video_filter ev cfg store chat_history question video_name))).
     src_video_name s = video_name"
proof (cases "filtered_retriever ev cfg store video_name question")
  case (Inl e)
  then show ?thesis
    by (simp add: ask_with_video_filter_def ask_with_video_filter_try_def error_result_def)
next
  case (Inr docs)
  then have m: "\<forall>d \<in> set docs. md_video_name (doc_metadata d) = video_name"
    unfolding filtered_retriever_def using similarity_query_filtered by blast
  show ?thesis
  proof (cases "temp_chain ev cfg store video_name chat_history question")
    case (Inl e)
    with Inr show ?thesis
      by (simp add: ask_with_video_filter_def ask_with_video_filter_try_def error_result_def)
  next
    case (Inr a)
    with \<open>filtered_retriever ev cfg store video_name question = Inr docs\<close> m show ?thesis
      by (simp add: ask_with_video_filter_def ask_with_video_filter_try_def Let_def source_of_def)
  qed
qed

text \<open>
  The claim on the store that holds one entry of \<open>talk.mp4\<close> and one of
  \<open>other.mp4\<close>: the question about \<open>talk.mp4\<close> has one source, of that video.
\<close>

theorem ask_with_video_filter_sources_match_witness:
  "map src_video_name
     (sources (fst (ask_with_video_filter example_env example_config example_store []
                      ''what is said?'' ''talk.mp4''))) = [''talk.mp4'']
   \<and> list_all (\<lambda>s. src_video_name s = ''talk.mp4'')
        (sources (fst (ask_with_video_filter example_env example_config example_store []
                         ''what is said?'' ''talk.mp4'')))"
proof -
  have "map src_video_name
     (sources (fst (ask_with_video_filter example_env example_config example_store []
                      ''what is said?'' ''talk.mp4''))) = [''talk.mp4'']"
    by (simp add: ask_with_video_filter_def ask_with_video_filter_try_def filtered_retriever_def
        temp_chain_def similarity_query_def example_env_def example_config_def
        example_store_def source_of_def Let_def)
  moreover have "list_all (\<lambda>s. src_video_name s = ''talk.mp4'')
        (sources (fst (ask_with_video_filter example_env example_config example_store []
                         ''what is said?'' ''talk.mp4'')))"
    using ask_with_video_filter_sources_match
            [of example_env example_config example_store "[]" "''what is said?''" "''talk.mp4''"]
    by (simp only: list_all_iff)
  ultimately show ?thesis by simp
qed

text \<open>
  Claim C8. When the retrieval raises, or the retrieval returns and the generation (the
  chain: its own retrieval, the formatting of the context, the chat model) raises, \<open>ask\<close>
  and \<open>ask_with_video_filter\<close> return a result: its answer is the text
  \<open>Sorry, I encountered an error: \<close> followed by the text of the exception, and its list
  of sources is empty.
\<close>

theorem chat_exception_becomes_answer:
  "(retriever ev cfg store question = Inl e \<longrightarrow>
        fst (ask ev cfg store chat_history question)
          = \<lparr>answer = ''Sorry, I encountered an error: '' @ exc_str e, sources = []\<rparr>)
   \<and> (retriever ev cfg store question = Inr docs
        \<and> chain ev cfg store chat_history question = Inl e \<longrightarrow>
        fst (ask ev cfg store chat_history question)
          = \<lparr>answer = ''Sorry, I encountered an error: '' @ exc_str e, sources = []\<rparr>)
   \<and> (filtered_retriever ev cfg store video_name question = Inl e \<longrightarrow>
        fst (ask_with_video_filter ev cfg store chat_history question video_name)
          = \<lparr>answer = ''Sorry, I encountered an error: '' @ exc_str e, sources = []\<rparr>)
   \<and> (filtered_retriever ev cfg store video_name question = Inr docs
        \<and> temp_chain ev cfg store video_name chat_history question = Inl e \<longrightarrow>
        fst (ask_with_video_filter ev cfg store chat_history question video_name)
          = \<lparr>answer = ''Sorry, I encountered an error: '' @ exc_str e, sources = []\<rparr>)"
  by (simp add: ask_def ask_try_def ask_with_video_filter_def
      ask_with_video_filter_try_def error_result_def)

lemma example_retrieval:
  "\<exists>docs. retriever offline_env example_config example_store ''what is said?'' = Inr docs"
  by (simp add: retriever_def similarity_query_def offline_env_def example_env_def)

lemma example_generation_fails:
  "chain offline_env example_config example_store [] ''what is said?''
     = Inl (ExternalFailure ''connection refused'')"
  by (simp add: chain_def retriever_def similarity_query_def offline_env_def example_env_def)

text \<open>
  The claim in the environment whose chat model is unreachable: the retrieval returns,
  the chain raises, and the answer carries the message of the exception.
\<close>

theorem chat_exception_becomes_answer_witness:
  "(\<exists>docs. retriever offline_env example_config example_store ''what is said?'' = Inr docs)
   \<and> chain offline_env example_config example_store [] ''what is said?''
        = Inl (ExternalFailure ''connection refused'')
   \<and> fst (ask offline_env example_config example_store [] ''what is said?'')
        = \<lparr>answer = ''Sorry, I encountered an error: connection refused'', sources = []\<rparr>"
proof -
  from example_retrieval obtain docs where
    r: "retriever offline_env example_config example_store ''what is said?'' = Inr docs" ..
  note g = example_generation_fails
  from chat_exception_becomes_answer
         [where ev = offline_env and cfg = example_config and store = example_store
            and question = "''what is said?''" and chat_history = "[]" and docs = docs
            and e = "ExternalFailure ''connection refused''"] r g
  have "fst (ask offline_env example_config example_store [] ''what is said?'')
        = \<lparr>answer = ''Sorry, I encountered an error: '' @ exc_str (ExternalFailure ''connection refused''),
           sources = []\<rparr>"
    by blast
  then have "fst (ask offline_env example_config example_store [] ''what is said?'')
        = \<lparr>answer = ''Sorry, I encountered an error: connection refused'', sources = []\<rparr>"
    by (simp add: exc_str_def)
  with r g show ?thesis by blast
qed

text \<open>
  Claim C10. When the \<open>try\<close> block of \<open>ask\<close> or of \<open>ask_with_video_filter\<close>
  raises, the conversation history is the one the call started with, at the moment of the
  exception and on return; when the block returns a result, the history is the old one
  followed by the question and the generated answer.
\<close>

theorem chat_error_keeps_history:
  "(fst (ask_try ev cfg store chat_history question) = Inl e \<longrightarrow>
        snd (ask_try ev cfg store chat_history question) = chat_history
        \<and> ask ev cfg store chat_history question = (error_result e, chat_history))
   \<and> (fst (ask_try ev cfg store chat_history question) = Inr r \<longrightarrow>
        ask ev cfg store chat_history question
          = (r, chat_history @ [HumanMessage question, AIMessage (answer r)]))
   \<and> (fst (ask_with_video_filter_try ev cfg store chat_history question video_name) = Inl e \<longrightarrow>
        snd (ask_with_video_filter_try ev cfg store chat_history question video_name)
          = chat_history
        \<and> ask_with_video_filter ev cfg store chat_history question video_name
            = (error_result e, chat_history))
   \<and> (fst (ask_with_video_filter_try ev cfg store chat_history question video_name) = Inr r \<longrightarrow>
        ask_with_video_filter ev cfg store chat_history question video_name
          = (r, chat_history @ [HumanMessage question, AIMessage (answer r)]))"
  by (auto simp add: ask_def ask_try_def ask_with_video_filter_def
      ask_with_video_filter_try_def Let_def split: sum.splits)

text \<open>
  The claim on a history of two messages, in the environment whose chat model is
  unreachable: the history returned is those two messages.
\<close>

theorem chat_error_keeps_history_witness:
  "fst (ask_try offline_env example_config example_store
          [HumanMessage ''hi'', AIMessage ''hello''] ''what is said?'')
     = Inl (ExternalFailure ''connection refused'')
   \<and> snd (ask offline_env example_config example_store
          [HumanMessage ''hi'', AIMessage ''hello''] ''what is said?'')
     = [HumanMessage ''hi'', AIMessage ''hello'']"
proof -
  have t: "fst (ask_try offline_env example_config example_store
          [HumanMessage ''hi'', AIMessage ''hello''] ''what is said?'')
     = Inl (ExternalFailure ''connection refused'')"
    by (simp add: ask_try_def chain_def retriever_def similarity_query_def offline_env_def
        example_env_def)
  from chat_error_keeps_history
         [where ev = offline_env and cfg = example_config and store = example_store
            and question = "''what is said?''"
            and chat_history = "[HumanMessage ''hi'', AIMessage ''hello'']"
            and e = "ExternalFailure ''connection refused''"] t
  have "ask offline_env example_config example_store
          [HumanMessage ''hi'', AIMessage ''hello''] ''what is said?''
     = (error_result (ExternalFailure ''connection refused''),
        [HumanMessage ''hi'', AIMessage ''hello''])"
    by blast
  with t show ?thesis by simp
qed

end
